theory Spec2Isabelle
  imports Main "HOL-Library.AList"
begin

section \<open>Payloads, exceptions and the process state\<close>

text \<open>
  The backend handles JSON payloads as Python values: \<open>None\<close>, booleans, integers,
  strings, lists and dictionaries. A dictionary keeps its insertion order, so an object is
  an association list; \<open>map_of\<close> reads it and \<open>AList.update\<close> writes it (in place when
  the key exists, appended otherwise), which is what a dict display with \<open>**member\<close>
  followed by further keys does.
\<close>

datatype json =
    JNull
  | JBool bool
  | JInt int
  | JStr string
  | JList "json list"
  | JObj "(string \<times> json) list"

text \<open>Truthiness, as \<open>if cached:\<close> and \<open>data or {}\<close> test it.\<close>

fun truthy :: "json \<Rightarrow> bool" where
  "truthy JNull = False"
| "truthy (JBool b) = b"
| "truthy (JInt i) = (i \<noteq> 0)"
| "truthy (JStr s) = (s \<noteq> [])"
| "truthy (JList xs) = (xs \<noteq> [])"
| "truthy (JObj kv) = (kv \<noteq> [])"

text \<open>
  Python's \<open>==\<close> on payloads: \<open>True == 1\<close> and \<open>False == 0\<close> hold, lists are
  compared element by element, and dictionaries by their keys and the values under
  them, whatever the order of insertion.
\<close>

fun py_eq :: "json \<Rightarrow> json \<Rightarrow> bool" where
  "py_eq JNull b = (b = JNull)"
| "py_eq (JBool x) b =
     (case b of JBool y \<Rightarrow> x = y | JInt j \<Rightarrow> j = (if x then 1 else 0) | _ \<Rightarrow> False)"
| "py_eq (JInt i) b =
     (case b of JInt j \<Rightarrow> i = j | JBool y \<Rightarrow> i = (if y then 1 else 0) | _ \<Rightarrow> False)"
| "py_eq (JStr s) b = (b = JStr s)"
| "py_eq (JList xs) b = (case b of JList ys \<Rightarrow> list_all2 py_eq xs ys | _ \<Rightarrow> False)"
| "py_eq (JObj kv) b =
     (case b of
        JObj kv2 \<Rightarrow>
          fst ` set kv = fst ` set kv2
          \<and> list_all (\<lambda>p. case map_of kv2 (fst p) of
                               None \<Rightarrow> False
                             | Some v2 \<Rightarrow> py_eq (snd p) v2) kv
      | _ \<Rightarrow> False)"

text \<open>
  Exceptions are values. \<open>SetFrontFailed status text\<close> is the
  \<open>Exception("Failed to set front: {status} - {text}")\<close> of \<open>set_front\<close>;
  \<open>DetailStr e\<close> is the detail \<open>str(e)\<close> that a catch-all handler puts into its
  status-500 answer, and \<open>DetailFailed prefix e\<close> the detail \<open>prefix + str(e)\<close>.
\<close>

datatype exc =
    HTTPException nat detail
  | HTTPStatusError nat
  | TransportError
  | SetFrontFailed nat string
  | JSONDecodeError
  | KeyError string
  | TypeError
  | AttributeError
and detail =
    DetailText string
  | DetailTooManyFronters nat
  | DetailInvalidTag string
  | DetailMembersNotList
  | DetailMemberIdsNotList
  | DetailStr exc
  | DetailFailed string exc

type_synonym ws = nat

datatype request = GET string | POST string json

record response =
  status_code :: nat
  content :: string
  parsed :: "json option"

datatype send_result = SendOk | SendDisconnect | SendError

text \<open>
  The trace records, in order, every cache write, every request sent to the remote API,
  every file written, every call of \<open>ConnectionManager.broadcast\<close> and every attempt
  to send on a socket.
\<close>

datatype event =
    CacheSet string json int
  | Remote request
  | FileWrite string
  | Broadcast string json
  | Sent ws json
  | SendFailed ws json

text \<open>
  The environment: the configured constants, the remote API and the sockets. The answer
  of the remote API and the outcome of a send may depend on everything that happened
  before, so both take the trace.
\<close>

record env =
  MAX_FRONTERS :: nat
  CACHE_TTL :: int
  remote :: "event list \<Rightarrow> request \<Rightarrow> exc + response"
  send_text :: "event list \<Rightarrow> ws \<Rightarrow> json \<Rightarrow> send_result"

record SubSystem =
  label :: string

record user =
  is_admin :: bool

record world =
  cache :: "string \<Rightarrow> (json \<times> int) option"
  clock :: nat
  trace :: "event list"
  active_connections :: "string \<Rightarrow> ws list option"
  member_tags_file :: "(string \<Rightarrow> string list option) option"
  default_member_tags :: "string \<Rightarrow> string list option"
  subsystems_file :: "SubSystem list option"
  mental_state_file :: "json option"

definition log_event :: "event \<Rightarrow> world \<Rightarrow> world" where
  "log_event e w = w\<lparr>trace := trace w @ [e]\<rparr>"

section \<open>Cache store\<close>

text \<open>
  Modelled from the spec: the module \<open>cache\<close> (\<open>get_from_cache\<close>, \<open>set_in_cache\<close>)
  is imported by \<open>pluralkit.py\<close> and \<open>main.py\<close> but is not among the sources. The spec
  gives an entry a value and an absolute expiry; an entry is visible only while the
  current time is before its expiry; setting with \<open>ttl = 0\<close> or a null value invalidates
  (expiry 0), so that the very next read reports absent.
\<close>

definition set_in_cache :: "string \<Rightarrow> json \<Rightarrow> int \<Rightarrow> world \<Rightarrow> world" where
  "set_in_cache key v ttl w =
     log_event (CacheSet key v ttl)
       (w\<lparr>cache := (cache w)(key \<mapsto>
            (v, if ttl = 0 \<or> v = JNull then 0 else int (clock w) + ttl))\<rparr>)"

definition get_from_cache :: "string \<Rightarrow> world \<Rightarrow> json option" where
  "get_from_cache key w =
     (case cache w key of
        None \<Rightarrow> None
      | Some (v, expiry) \<Rightarrow> if int (clock w) < expiry then Some v else None)"

text \<open>The walrus test \<open>if (cached := get_from_cache(key)):\<close> of the read paths.\<close>

definition cache_hit :: "string \<Rightarrow> world \<Rightarrow> json option" where
  "cache_hit key w =
     (case get_from_cache key w of
        None \<Rightarrow> None
      | Some v \<Rightarrow> if truthy v then Some v else None)"

section \<open>Python operations on payloads\<close>

definition py_get :: "json \<Rightarrow> string \<Rightarrow> json \<Rightarrow> exc + json" where
  "py_get d key dflt =
     (case d of
        JObj kv \<Rightarrow> (case map_of kv key of None \<Rightarrow> Inr dflt | Some v \<Rightarrow> Inr v)
      | _ \<Rightarrow> Inl AttributeError)"

definition py_iter :: "json \<Rightarrow> exc + json list" where
  "py_iter v =
     (case v of
        JList xs \<Rightarrow> Inr xs
      | JObj kv \<Rightarrow> Inr (map (\<lambda>p. JStr (fst p)) kv)
      | JStr s \<Rightarrow> Inr (map (\<lambda>c. JStr [c]) s)
      | _ \<Rightarrow> Inl TypeError)"

fun is_substring :: "string \<Rightarrow> string \<Rightarrow> bool" where
  "is_substring p [] = (p = [])"
| "is_substring p (c # cs) = (p = take (length p) (c # cs) \<or> is_substring p cs)"

definition py_contains :: "string \<Rightarrow> json \<Rightarrow> exc + bool" where
  "py_contains key v =
     (case v of
        JObj kv \<Rightarrow> Inr (key \<in> fst ` set kv)
      | JList xs \<Rightarrow> Inr (list_ex (py_eq (JStr key)) xs)
      | JStr s \<Rightarrow> Inr (is_substring key s)
      | _ \<Rightarrow> Inl TypeError)"

definition py_getitem :: "json \<Rightarrow> string \<Rightarrow> exc + json" where
  "py_getitem d key =
     (case d of
        JObj kv \<Rightarrow> (case map_of kv key of None \<Rightarrow> Inl (KeyError key) | Some v \<Rightarrow> Inr v)
      | _ \<Rightarrow> Inl TypeError)"

definition py_setitem :: "json \<Rightarrow> string \<Rightarrow> json \<Rightarrow> exc + json" where
  "py_setitem d key v =
     (case d of
        JObj kv \<Rightarrow> Inr (JObj (AList.update key v kv))
      | _ \<Rightarrow> Inl TypeError)"

section \<open>Upstream client (pluralkit.py)\<close>

definition SWITCHES_URL :: string where
  "SWITCHES_URL = ''https://api.pluralkit.me/v2/systems/@me/switches''"

definition MEMBERS_URL :: string where
  "MEMBERS_URL = ''https://api.pluralkit.me/v2/systems/@me/members''"

definition FRONTERS_URL :: string where
  "FRONTERS_URL = ''https://api.pluralkit.me/v2/systems/@me/fronters''"

definition SPECIAL_DISPLAY_NAMES :: "(string \<times> string) list" where
  "SPECIAL_DISPLAY_NAMES =
     [(''answer'', ''Answer Machine''),
      (''system'', ''Unsure''),
      (''sleeping'', ''I am sleeping'')]"

text \<open>A request is answered by the environment, at the trace reached so far.\<close>

definition http_call :: "env \<Rightarrow> request \<Rightarrow> world \<Rightarrow> (exc + response) \<times> world" where
  "http_call ev req w = (remote ev (trace w) req, log_event (Remote req) w)"

text \<open>\<open>resp.raise_for_status()\<close> of httpx: any status outside 200..299 raises.\<close>

definition raise_for_status :: "response \<Rightarrow> exc + unit" where
  "raise_for_status r =
     (if 200 \<le> status_code r \<and> status_code r \<le> 299 then Inr ()
      else Inl (HTTPStatusError (status_code r)))"

definition resp_json :: "response \<Rightarrow> exc + json" where
  "resp_json r = (case parsed r of None \<Rightarrow> Inl JSONDecodeError | Some j \<Rightarrow> Inr j)"

text \<open>The shared shape of the three reads: GET, \<open>raise_for_status\<close>, \<open>resp.json()\<close>.\<close>

definition get_json :: "env \<Rightarrow> string \<Rightarrow> world \<Rightarrow> (exc + json) \<times> world" where
  "get_json ev url w =
     (case http_call ev (GET url) w of
        (Inl e, w1) \<Rightarrow> (Inl e, w1)
      | (Inr resp, w1) \<Rightarrow>
          (case raise_for_status resp of
             Inl e \<Rightarrow> (Inl e, w1)
           | Inr _ \<Rightarrow> (resp_json resp, w1)))"

text \<open>
  \<open>member_name in SPECIAL_DISPLAY_NAMES\<close>: a string is looked up; \<open>None\<close>, a boolean
  or a number is hashable and never a key; a list or a dictionary is unhashable.
\<close>

definition special_display_name :: "json \<Rightarrow> exc + string option" where
  "special_display_name member_name =
     (case member_name of
        JStr s \<Rightarrow> Inr (map_of SPECIAL_DISPLAY_NAMES s)
      | JList _ \<Rightarrow> Inl TypeError
      | JObj _ \<Rightarrow> Inl TypeError
      | _ \<Rightarrow> Inr None)"

text \<open>One turn of the loop of \<open>get_members\<close> (lines 52 to 68).\<close>

definition process_member :: "json \<Rightarrow> exc + json" where
  "process_member member =
     (case member of
        JObj kv \<Rightarrow>
          (let member_name = (case map_of kv ''name'' of None \<Rightarrow> JNull | Some v \<Rightarrow> v)
           in case special_display_name member_name of
                Inl e \<Rightarrow> Inl e
              | Inr None \<Rightarrow> Inr member
              | Inr (Some shown) \<Rightarrow>
                  Inr (JObj (AList.update ''original_name'' member_name
                         (AList.update ''is_special'' (JBool True)
                           (AList.update ''display_name'' (JStr shown) kv)))))
      | _ \<Rightarrow> Inl AttributeError)"

fun process_members :: "json list \<Rightarrow> exc + json list" where
  "process_members [] = Inr []"
| "process_members (member # rest) =
     (case process_member member of
        Inl e \<Rightarrow> Inl e
      | Inr m \<Rightarrow>
          (case process_members rest of
             Inl e \<Rightarrow> Inl e
           | Inr ms \<Rightarrow> Inr (m # ms)))"

text \<open>The raw tier of \<open>get_members\<close> (lines 40 to 46).\<close>

definition get_members_raw :: "env \<Rightarrow> world \<Rightarrow> (exc + json) \<times> world" where
  "get_members_raw ev w =
     (case cache_hit ''members_raw'' w of
        Some cached_raw \<Rightarrow> (Inr cached_raw, w)
      | None \<Rightarrow>
          (case get_json ev MEMBERS_URL w of
             (Inl e, w1) \<Rightarrow> (Inl e, w1)
           | (Inr data, w1) \<Rightarrow> (Inr data, set_in_cache ''members_raw'' data (CACHE_TTL ev) w1)))"

definition get_members :: "env \<Rightarrow> world \<Rightarrow> (exc + json) \<times> world" where
  "get_members ev w =
     (case cache_hit ''members'' w of
        Some cached \<Rightarrow> (Inr cached, w)
      | None \<Rightarrow>
          (case get_members_raw ev w of
             (Inl e, w1) \<Rightarrow> (Inl e, w1)
           | (Inr data, w1) \<Rightarrow>
               (case py_iter data of
                  Inl e \<Rightarrow> (Inl e, w1)
                | Inr members \<Rightarrow>
                    (case process_members members of
                       Inl e \<Rightarrow> (Inl e, w1)
                     | Inr processed_members \<Rightarrow>
                         (Inr (JList processed_members),
                          set_in_cache ''members'' (JList processed_members)
                            (CACHE_TTL ev) w1)))))"

text \<open>
  The inner loop of \<open>get_fronters\<close> (lines 90 to 94): the first member of
  \<open>all_members\<close> with the fronter's id.
\<close>

fun find_processed :: "json list \<Rightarrow> json \<Rightarrow> exc + json option" where
  "find_processed [] member = Inr None"
| "find_processed (m # ms) member =
     (case py_get m ''id'' JNull of
        Inl e \<Rightarrow> Inl e
      | Inr a \<Rightarrow>
          (case py_get member ''id'' JNull of
             Inl e \<Rightarrow> Inl e
           | Inr b \<Rightarrow> if py_eq a b then Inr (Some m) else find_processed ms member))"

fun process_fronters :: "json \<Rightarrow> json list \<Rightarrow> exc + json list" where
  "process_fronters all_members [] = Inr []"
| "process_fronters all_members (member # rest) =
     (case py_iter all_members of
        Inl e \<Rightarrow> Inl e
      | Inr ms \<Rightarrow>
          (case find_processed ms member of
             Inl e \<Rightarrow> Inl e
           | Inr found \<Rightarrow>
               (let chosen = (case found of
                                None \<Rightarrow> member
                              | Some m \<Rightarrow> if truthy m then m else member)
                in case process_fronters all_members rest of
                     Inl e \<Rightarrow> Inl e
                   | Inr out \<Rightarrow> Inr (chosen # out))))"

definition get_fronters :: "env \<Rightarrow> world \<Rightarrow> (exc + json) \<times> world" where
  "get_fronters ev w =
     (case cache_hit ''fronters'' w of
        Some cached \<Rightarrow> (Inr cached, w)
      | None \<Rightarrow>
          (case get_json ev FRONTERS_URL w of
             (Inl e, w1) \<Rightarrow> (Inl e, w1)
           | (Inr data, w1) \<Rightarrow>
               (case py_contains ''members'' data of
                  Inl e \<Rightarrow> (Inl e, w1)
                | Inr False \<Rightarrow> (Inr data, set_in_cache ''fronters'' data (CACHE_TTL ev) w1)
                | Inr True \<Rightarrow>
                    (case get_members ev w1 of
                       (Inl e, w2) \<Rightarrow> (Inl e, w2)
                     | (Inr all_members, w2) \<Rightarrow>
                         (case py_getitem data ''members'' of
                            Inl e \<Rightarrow> (Inl e, w2)
                          | Inr listed \<Rightarrow>
                              (case py_iter listed of
                                 Inl e \<Rightarrow> (Inl e, w2)
                               | Inr fronting \<Rightarrow>
                                   (case process_fronters all_members fronting of
                                      Inl e \<Rightarrow> (Inl e, w2)
                                    | Inr processed_fronters \<Rightarrow>
                                        (case py_setitem data ''members''
                                                (JList processed_fronters) of
                                           Inl e \<Rightarrow> (Inl e, w2)
                                         | Inr data2 \<Rightarrow>
                                             (Inr data2,
                                              set_in_cache ''fronters'' data2
                                                (CACHE_TTL ev) w2)))))))))"

text \<open>
  \<open>set_front\<close> in its two parts: the invalidation of line 115, and the request of
  lines 117 to 127, which is where the coroutine is suspended.
\<close>

definition set_front_invalidate :: "world \<Rightarrow> world" where
  "set_front_invalidate w = set_in_cache ''fronters'' JNull 0 w"

definition switch_request :: "json list \<Rightarrow> request" where
  "switch_request member_ids = POST SWITCHES_URL (JObj [(''members'', JList member_ids)])"

definition set_front_request :: "env \<Rightarrow> json list \<Rightarrow> world \<Rightarrow> (exc + json) \<times> world" where
  "set_front_request ev member_ids w =
     (case http_call ev (switch_request member_ids) w of
        (Inl e, w1) \<Rightarrow> (Inl e, w1)
      | (Inr resp, w1) \<Rightarrow>
          if status_code resp \<noteq> 200 \<and> status_code resp \<noteq> 204
          then (Inl (SetFrontFailed (status_code resp) (content resp)), w1)
          else if content resp \<noteq> [] then (resp_json resp, w1)
          else (Inr JNull, w1))"

definition set_front :: "env \<Rightarrow> json list \<Rightarrow> world \<Rightarrow> (exc + json) \<times> world" where
  "set_front ev member_ids w = set_front_request ev member_ids (set_front_invalidate w)"

section \<open>Connection registry (main.py, ConnectionManager)\<close>

text \<open>
  A group is a Python set of sockets; the list holds its members once each, in the order
  in which the set is iterated. \<open>set_add\<close> is \<open>set.add\<close> and \<open>removeAll\<close> is
  \<open>set.discard\<close>.
\<close>

definition set_add :: "ws \<Rightarrow> ws list \<Rightarrow> ws list" where
  "set_add c s = (if c \<in> set s then s else s @ [c])"

definition connect :: "ws \<Rightarrow> string \<Rightarrow> world \<Rightarrow> (exc + unit) \<times> world" where
  "connect websocket grp w =
     (case active_connections w grp of
        None \<Rightarrow> (Inl (KeyError grp), w)
      | Some group_set \<Rightarrow>
          (Inr (), w\<lparr>active_connections :=
                      (active_connections w)(grp \<mapsto> set_add websocket group_set)\<rparr>))"

text \<open>
  \<open>disconnect\<close> (lines 207 to 212): the subscript of line 208 raises \<open>KeyError\<close> for a
  group that is not a key of \<open>active_connections\<close>; then the socket is discarded from the
  set of every group.
\<close>

definition disconnect :: "ws \<Rightarrow> string \<Rightarrow> world \<Rightarrow> (exc + unit) \<times> world" where
  "disconnect websocket grp w =
     (case active_connections w grp of
        None \<Rightarrow> (Inl (KeyError grp), w)
      | Some group_set \<Rightarrow>
          (let ac1 = (active_connections w)(grp \<mapsto> removeAll websocket group_set);
               ac2 = (\<lambda>g. map_option (removeAll websocket) (ac1 g))
           in (Inr (), w\<lparr>active_connections := ac2\<rparr>)))"

text \<open>The sending loop of \<open>broadcast\<close> (lines 226 to 233), over the copy of the group.\<close>

fun send_all :: "env \<Rightarrow> json \<Rightarrow> ws list \<Rightarrow> ws list \<Rightarrow> world \<Rightarrow> ws list \<times> world" where
  "send_all ev message [] disconnected w = (disconnected, w)"
| "send_all ev message (connection # rest) disconnected w =
     (case send_text ev (trace w) connection message of
        SendOk \<Rightarrow>
          send_all ev message rest disconnected (log_event (Sent connection message) w)
      | _ \<Rightarrow>
          send_all ev message rest (set_add connection disconnected)
            (log_event (SendFailed connection message) w))"

text \<open>The cleaning loop of \<open>broadcast\<close> (lines 236 and 237).\<close>

fun disconnect_all :: "ws list \<Rightarrow> string \<Rightarrow> world \<Rightarrow> (exc + unit) \<times> world" where
  "disconnect_all [] grp w = (Inr (), w)"
| "disconnect_all (conn # rest) grp w =
     (case disconnect conn grp w of
        (Inl e, w1) \<Rightarrow> (Inl e, w1)
      | (Inr _, w1) \<Rightarrow> disconnect_all rest grp w1)"

definition broadcast :: "env \<Rightarrow> json \<Rightarrow> string \<Rightarrow> world \<Rightarrow> (exc + unit) \<times> world" where
  "broadcast ev message grp w =
     (let w0 = log_event (Broadcast grp message) w
      in case active_connections w0 grp of
           None \<Rightarrow> (Inl (KeyError grp), w0)
         | Some conns \<Rightarrow>
             (case send_all ev message conns [] w0 of
                (disconnected, w1) \<Rightarrow> disconnect_all disconnected grp w1))"

text \<open>
  \<open>broadcast_frontend_update\<close>: the envelope goes to the group \<open>all\<close>. The message is
  kept as the payload that \<open>json.dumps\<close> serialises, and the timestamp as the clock's
  reading.
\<close>

definition broadcast_frontend_update ::
  "env \<Rightarrow> string \<Rightarrow> json \<Rightarrow> world \<Rightarrow> (exc + unit) \<times> world" where
  "broadcast_frontend_update ev data_type data w =
     broadcast ev
       (JObj [(''type'', JStr data_type),
              (''timestamp'', JInt (int (clock w))),
              (''data'', if truthy data then data else JObj [])])
       ''all'' w"

definition broadcast_fronting_update :: "env \<Rightarrow> json \<Rightarrow> world \<Rightarrow> (exc + unit) \<times> world" where
  "broadcast_fronting_update ev fronters_data w =
     broadcast_frontend_update ev ''fronting_update'' fronters_data w"


section \<open>Sub-system tags (subsystems.py)\<close>

definition SUBSYSTEMS_FILE :: string where
  "SUBSYSTEMS_FILE = ''dough-data/subsystems.json''"

definition MEMBER_TAGS_FILE :: string where
  "MEMBER_TAGS_FILE = ''dough-data/member_tags.json''"


definition DEFAULT_SUBSYSTEMS :: "SubSystem list" where
  "DEFAULT_SUBSYSTEMS = []"

definition DEFAULT_MEMBER_TAGS :: "(string \<times> string list) list" where
  "DEFAULT_MEMBER_TAGS =
     [(''Jinx'', [''Arcane'']), (''Vi'', [''Arcane'']),
      (''Onyx'', [''Cat'']), (''Pyzer'', [''Cat'']), (''Pyzen'', [''Cat'']),
      (''JS'', [''Cyberpunk'']), (''V'', [''Cyberpunk'']), (''Judy'', [''Cyberpunk'']),
      (''Marin'', [''DUD'']),
      (''Roxy'', [''FNAF'']),
      (''Catrin'', [''Fortnite'']), (''Hope'', [''Fortnite'']), (''Meg'', [''Fortnite'']),
      (''02'', [''Franxx'']),
      (''C1'', [''Host'']), (''Cleo'', [''Host'']), (''Cwove'', [''Host'']),
      (''abby'', [''KPDH'']), (''baby'', [''KPDH'']), (''Bobby'', [''KPDH'']),
      (''jinu'', [''KPDH'']), (''Mira'', [''KPDH'']), (''mystery'', [''KPDH'']),
      (''romance'', [''KPDH'']), (''Rumi'', [''KPDH'']), (''Zoey'', [''KPDH'']),
      (''Dashie'', [''MLP'']),
      (''D.Va'', [''Overwatch'']), (''Tracer'', [''Overwatch'']),
      (''Astra'', [''Valorant'']), (''C2'', [''Valorant'']), (''Cypher'', [''Valorant'']),
      (''Deadlock'', [''Valorant'']), (''Fade'', [''Valorant'']), (''Jett'', [''Valorant'']),
      (''KJ'', [''Valorant'']), (''Neon'', [''Valorant'']), (''Raze'', [''Valorant'']),
      (''Reyna'', [''Valorant'']), (''Sage'', [''Valorant'']), (''Viper'', [''Valorant'']),
      (''Vyse'', [''Valorant'']),
      (''CMiku'', [''Vocaloids'']), (''HMiku'', [''Vocaloids'']), (''SMiku'', [''Vocaloids'']),
      (''Anby'', [''ZZZ'']), (''Belle'', [''ZZZ''])]"

text \<open>
  The two JSON files are state: \<open>None\<close> while the file does not exist. The global
  \<open>DEFAULT_MEMBER_TAGS\<close> is state too (\<open>default_member_tags\<close>, which starts as
  \<open>map_of DEFAULT_MEMBER_TAGS\<close>): \<open>get_member_tags\<close> hands out a shallow copy of it
  when the file is missing, so the tag lists of that copy are the lists of the global.
  \<open>get_member_tags\<close> returns the mapping and whether its lists are shared in this way.
\<close>

definition save_subsystems :: "SubSystem list \<Rightarrow> world \<Rightarrow> world" where
  "save_subsystems subsystems_data w =
     log_event (FileWrite SUBSYSTEMS_FILE) (w\<lparr>subsystems_file := Some subsystems_data\<rparr>)"

definition get_subsystems :: "world \<Rightarrow> SubSystem list \<times> world" where
  "get_subsystems w =
     (case subsystems_file w of
        None \<Rightarrow> (DEFAULT_SUBSYSTEMS, save_subsystems DEFAULT_SUBSYSTEMS w)
      | Some subsystems_data \<Rightarrow> (subsystems_data, w))"

definition save_member_tags :: "(string \<Rightarrow> string list option) \<Rightarrow> world \<Rightarrow> world" where
  "save_member_tags member_tags w =
     log_event (FileWrite MEMBER_TAGS_FILE) (w\<lparr>member_tags_file := Some member_tags\<rparr>)"

definition get_member_tags ::
  "world \<Rightarrow> ((string \<Rightarrow> string list option) \<times> bool) \<times> world" where
  "get_member_tags w =
     (case member_tags_file w of
        None \<Rightarrow> ((default_member_tags w, True), save_member_tags (default_member_tags w) w)
      | Some member_tags \<Rightarrow> ((member_tags, False), w))"

definition get_member_tags_by_id :: "string \<Rightarrow> string \<Rightarrow> world \<Rightarrow> string list \<times> world" where
  "get_member_tags_by_id member_id member_name w =
     (case get_member_tags w of
        ((member_tags, shared), w1) \<Rightarrow>
          (case member_tags member_name of
             Some tags \<Rightarrow> (tags, w1)
           | None \<Rightarrow>
               (case member_tags member_id of
                  Some tags \<Rightarrow> (tags, w1)
                | None \<Rightarrow> ([], w1))))"

definition update_member_tags :: "string \<Rightarrow> string list \<Rightarrow> world \<Rightarrow> bool \<times> world" where
  "update_member_tags member_identifier tags w =
     (case get_member_tags w of
        ((member_tags, shared), w1) \<Rightarrow>
          (True, save_member_tags (member_tags(member_identifier \<mapsto> tags)) w1))"

text \<open>
  \<open>remove_member_tag\<close>: \<open>list.remove\<close> deletes the first occurrence, in place; when the
  list is shared with the global default, the global's list changes with it.
\<close>

definition remove_member_tag :: "string \<Rightarrow> string \<Rightarrow> world \<Rightarrow> bool \<times> world" where
  "remove_member_tag member_identifier tag w =
     (case get_member_tags w of
        ((member_tags, shared), w1) \<Rightarrow>
          (case member_tags member_identifier of
             None \<Rightarrow> (False, w1)
           | Some tags \<Rightarrow>
               if tag \<in> set tags
               then (let tags2 = remove1 tag tags;
                         w2 = (if shared
                               then w1\<lparr>default_member_tags :=
                                         (default_member_tags w1)(member_identifier \<mapsto> tags2)\<rparr>
                               else w1)
                     in (True, save_member_tags (member_tags(member_identifier \<mapsto> tags2)) w2))
               else (False, w1)))"

definition validate_subsystem_tag :: "string \<Rightarrow> world \<Rightarrow> bool \<times> world" where
  "validate_subsystem_tag tag w =
     (case get_subsystems w of
        (subsystems, w1) \<Rightarrow> (tag \<in> set (map label subsystems @ [''host'']), w1))"

section \<open>Endpoints (main.py)\<close>

text \<open>
  An endpoint takes the parsed request body and the authenticated user. The handler
  \<open>except Exception as e: raise HTTPException(status_code=500, detail=str(e))\<close>
  catches every exception of the model, \<open>HTTPException\<close> included, since it is a
  subclass of \<open>Exception\<close>; \<open>catch_failed\<close> is the same handler with a detail that
  starts with a fixed text, and \<open>reraise_http\<close> is the pair of handlers that lets an
  \<open>HTTPException\<close> through first.
\<close>

definition catch_all :: "exc \<Rightarrow> exc" where
  "catch_all e = HTTPException 500 (DetailStr e)"

definition catch_failed :: "string \<Rightarrow> exc \<Rightarrow> exc" where
  "catch_failed prefix e = HTTPException 500 (DetailFailed prefix e)"

definition reraise_http :: "string \<Rightarrow> exc \<Rightarrow> exc" where
  "reraise_http prefix e =
     (case e of HTTPException code d \<Rightarrow> e | _ \<Rightarrow> catch_failed prefix e)"

definition handled :: "(exc \<Rightarrow> exc) \<Rightarrow> (exc + 'a) \<times> world \<Rightarrow> (exc + 'a) \<times> world" where
  "handled h r = (case r of (Inl e, w) \<Rightarrow> (Inl (h e), w) | (Inr v, w) \<Rightarrow> (Inr v, w))"

text \<open>What the switching endpoints do after their checks (lines 477 to 481).\<close>

definition switch_and_broadcast :: "env \<Rightarrow> json list \<Rightarrow> world \<Rightarrow> (exc + json) \<times> world" where
  "switch_and_broadcast ev member_ids w =
     (case set_front ev member_ids w of
        (Inl e, w1) \<Rightarrow> (Inl e, w1)
      | (Inr result, w1) \<Rightarrow>
          (case get_fronters ev w1 of
             (Inl e, w2) \<Rightarrow> (Inl e, w2)
           | (Inr fronters_data, w2) \<Rightarrow>
               (case broadcast_fronting_update ev fronters_data w2 of
                  (Inl e, w3) \<Rightarrow> (Inl e, w3)
                | (Inr _, w3) \<Rightarrow> (Inr result, w3))))"

text \<open>The body of the \<open>try\<close> of \<open>switch_front\<close> (lines 464 to 483).\<close>

definition switch_front_try :: "env \<Rightarrow> json \<Rightarrow> world \<Rightarrow> (exc + json) \<times> world" where
  "switch_front_try ev body w =
     (case py_get body ''members'' (JList []) of
        Inl e \<Rightarrow> (Inl e, w)
      | Inr (JList member_ids) \<Rightarrow>
          if length member_ids > MAX_FRONTERS ev
          then (Inl (HTTPException 400 (DetailTooManyFronters (MAX_FRONTERS ev))), w)
          else (case switch_and_broadcast ev member_ids w of
                  (Inl e, w1) \<Rightarrow> (Inl e, w1)
                | (Inr _, w1) \<Rightarrow>
                    (Inr (JObj [(''status'', JStr ''success''),
                                (''message'', JStr ''Front updated successfully'')]), w1))
      | Inr _ \<Rightarrow> (Inl (HTTPException 400 DetailMembersNotList), w))"

definition switch_front :: "env \<Rightarrow> json \<Rightarrow> world \<Rightarrow> (exc + json) \<times> world" where
  "switch_front ev body w = handled catch_all (switch_front_try ev body w)"






text \<open>\<open>update_member_tag_list\<close> (lines 715 to 752).\<close>

fun validate_tags :: "string list \<Rightarrow> world \<Rightarrow> (exc + unit) \<times> world" where
  "validate_tags [] w = (Inr (), w)"
| "validate_tags (tag # rest) w =
     (case validate_subsystem_tag tag w of
        (False, w1) \<Rightarrow> (Inl (HTTPException 400 (DetailInvalidTag tag)), w1)
      | (True, w1) \<Rightarrow> validate_tags rest w1)"

definition update_member_tag_list ::
  "user \<Rightarrow> string \<Rightarrow> string list \<Rightarrow> world \<Rightarrow> (exc + json) \<times> world" where
  "update_member_tag_list usr member_identifier tags w =
     (if \<not> is_admin usr
      then (Inl (HTTPException 403 (DetailText ''Admin privileges required'')), w)
      else handled (reraise_http ''Failed to update member tags: '')
             (case validate_tags tags w of
                (Inl e, w1) \<Rightarrow> (Inl e, w1)
              | (Inr _, w1) \<Rightarrow>
                  (case update_member_tags member_identifier tags w1 of
                     (success, w2) \<Rightarrow>
                       if success
                       then (Inr (JObj [(''status'', JStr ''success''),
                                        (''message'',
                                         JStr (''Updated tags for '' @ member_identifier)),
                                        (''tags'', JList (map JStr tags))]),
                             set_in_cache ''members_raw'' JNull 0 w2)
                       else (Inl (HTTPException 500
                                    (DetailText ''Failed to update member tags'')), w2))))"

section \<open>The events of a mutating operation\<close>

text \<open>
  The kinds of events of the trace. A mutation is a write to the source of truth: a
  \<open>POST\<close> to the remote API or a write of a local file. An invalidation is a
  \<open>set_in_cache\<close> with a null value or a time to live of 0. A re-read is a \<open>GET\<close>
  to the remote API. The events \<open>quiet\<close> are those of a read path: cache writes
  and \<open>GET\<close> requests.
\<close>

definition is_mutation :: "event \<Rightarrow> bool" where
  "is_mutation e =
     (case e of
        Remote r \<Rightarrow> (case r of GET u \<Rightarrow> False | POST u b \<Rightarrow> True)
      | FileWrite f \<Rightarrow> True
      | _ \<Rightarrow> False)"






definition quiet :: "event \<Rightarrow> bool" where
  "quiet e =
     (case e of
        CacheSet k v t \<Rightarrow> True
      | Remote r \<Rightarrow> (case r of GET u \<Rightarrow> True | POST u b \<Rightarrow> False)
      | _ \<Rightarrow> False)"





section \<open>Concrete inputs\<close>

text \<open>
  The process as it starts: an empty cache, the two groups of the connection manager
  without members, no file written yet.
\<close>

definition initial_world :: "nat \<Rightarrow> world" where
  "initial_world t =
     \<lparr>cache = Map.empty, clock = t, trace = [],
      active_connections = [''all'' \<mapsto> [], ''authenticated'' \<mapsto> []],
      member_tags_file = None,
      default_member_tags = map_of DEFAULT_MEMBER_TAGS,
      subsystems_file = None,
      mental_state_file = None\<rparr>"

definition reply :: "nat \<Rightarrow> string \<Rightarrow> json option \<Rightarrow> response" where
  "reply code body j = \<lparr>status_code = code, content = body, parsed = j\<rparr>"

text \<open>A remote API that answers every request with 201 Created, and one with 200 OK.\<close>

definition env_created :: env where
  "env_created =
     \<lparr>MAX_FRONTERS = 5, CACHE_TTL = 30,
      remote = (\<lambda>tr req. Inr (reply 201 ''{}'' (Some (JObj [])))),
      send_text = (\<lambda>tr c m. SendOk)\<rparr>"

definition env_ok :: env where
  "env_ok =
     \<lparr>MAX_FRONTERS = 5, CACHE_TTL = 30,
      remote = (\<lambda>tr req. Inr (reply 200 ''{}'' (Some (JObj [])))),
      send_text = (\<lambda>tr c m. SendOk)\<rparr>"

text \<open>A tag file in which the identifier and the name of one member are both keys.\<close>

definition tagged_world :: world where
  "tagged_world = (initial_world 10)
     \<lparr>member_tags_file := Some [''abcde'' \<mapsto> [''Valorant''], ''Jinx'' \<mapsto> [''Arcane'']],
      subsystems_file := Some [\<lparr>label = ''Arcane''\<rparr>, \<lparr>label = ''Valorant''\<rparr>]\<rparr>"

definition six_ids :: "json list" where
  "six_ids =
     [JStr ''aaaaa'', JStr ''bbbbb'', JStr ''ccccc'', JStr ''ddddd'', JStr ''eeeee'',
      JStr ''fffff'']"

text \<open>The events that an operation adds to the trace.\<close>

definition new_events :: "world \<Rightarrow> world \<Rightarrow> event list" where
  "new_events w w2 = drop (length (trace w)) (trace w2)"

text \<open>Two sockets in the group \<open>all\<close>, the first of them authenticated and broken.\<close>

definition crowded_world :: world where
  "crowded_world = (initial_world 10)
     \<lparr>active_connections := [''all'' \<mapsto> [1, 2], ''authenticated'' \<mapsto> [1]]\<rparr>"

definition env_flaky :: env where
  "env_flaky =
     \<lparr>MAX_FRONTERS = 5, CACHE_TTL = 30,
      remote = (\<lambda>tr req. Inl TransportError),
      send_text = (\<lambda>tr c m. if c = 1 then SendError else SendOk)\<rparr>"

text \<open>
  An upstream with two members, one of them named \<open>system\<close> and carrying a field
  \<open>original_name\<close>; the member \<open>Jinx\<close> is fronting.
\<close>

definition system_member :: "(string \<times> json) list" where
  "system_member =
     [(''id'', JStr ''sysid''), (''name'', JStr ''system''),
      (''original_name'', JStr ''legacy'')]"

definition jinx_member :: "(string \<times> json) list" where
  "jinx_member = [(''id'', JStr ''abcde''), (''name'', JStr ''Jinx'')]"

definition env_upstream :: env where
  "env_upstream =
     \<lparr>MAX_FRONTERS = 5, CACHE_TTL = 30,
      remote = (\<lambda>tr req.
        case req of
          GET url \<Rightarrow>
            if url = MEMBERS_URL
            then Inr (reply 200 ''[...]'' (Some (JList [JObj system_member, JObj jinx_member])))
            else Inr (reply 200 ''{...}''
                   (Some (JObj [(''id'', JStr ''sw001''),
                                (''members'', JList [JObj jinx_member])])))
        | POST url body \<Rightarrow> Inr (reply 200 ''{}'' (Some (JObj [])))),
      send_text = (\<lambda>tr c m. SendOk)\<rparr>"

definition admin :: user where
  "admin = \<lparr>is_admin = True\<rparr>"

definition cached_world :: world where
  "cached_world = tagged_world
     \<lparr>cache := [''members'' \<mapsto> (JList [JObj jinx_member], 40),
                ''members_raw'' \<mapsto> (JList [JObj jinx_member], 40)]\<rparr>"

text \<open>
  An upstream whose front is \<open>Jinx\<close> until a switch request has reached it, and
  \<open>Vi\<close> from then on; a reader that runs \<open>get_fronters\<close> between the
  invalidation and the request of \<open>set_front\<close>, and the state when the request has
  returned.
\<close>

definition vi_member :: "(string \<times> json) list" where
  "vi_member = [(''id'', JStr ''fghij''), (''name'', JStr ''Vi'')]"

definition old_front :: json where
  "old_front = JObj [(''id'', JStr ''sw001''), (''members'', JList [JObj jinx_member])]"

definition new_front :: json where
  "new_front = JObj [(''id'', JStr ''sw002''), (''members'', JList [JObj vi_member])]"

definition env_switching :: env where
  "env_switching =
     \<lparr>MAX_FRONTERS = 5, CACHE_TTL = 30,
      remote = (\<lambda>tr req.
        case req of
          GET url \<Rightarrow>
            if url = MEMBERS_URL
            then Inr (reply 200 ''[...]'' (Some (JList [JObj jinx_member, JObj vi_member])))
            else if list_ex is_mutation tr
            then Inr (reply 200 ''{...}'' (Some new_front))
            else Inr (reply 200 ''{...}'' (Some old_front))
        | POST url body \<Rightarrow> Inr (reply 200 ''{}'' (Some (JObj [])))),
      send_text = (\<lambda>tr c m. SendOk)\<rparr>"

definition reader_interleaved :: world where
  "reader_interleaved =
     snd (get_fronters env_switching (set_front_invalidate (initial_world 10)))"

definition write_completed :: world where
  "write_completed = snd (set_front_request env_switching [JStr ''fghij''] reader_interleaved)"





section \<open>The remote write of set_front\<close>

lemma set_front_trace:
  "trace (snd (set_front ev ids w)) =
     trace w @ [CacheSet ''fronters'' JNull 0, Remote (switch_request ids)]"
  by (simp add: set_front_def set_front_request_def set_front_invalidate_def http_call_def
      set_in_cache_def log_event_def split: sum.splits)

lemma set_front_cache:
  "cache (snd (set_front ev ids w)) = cache (set_front_invalidate w)"
  by (simp add: set_front_def set_front_request_def set_front_invalidate_def http_call_def
      set_in_cache_def log_event_def split: sum.splits)

lemma invalidated_absent:
  "get_from_cache ''fronters'' ((set_front_invalidate w)\<lparr>clock := t\<rparr>) = None"
  by (simp add: set_front_invalidate_def set_in_cache_def log_event_def get_from_cache_def)

lemma get_json_trace:
  "trace (snd (get_json ev url w)) = trace w @ [Remote (GET url)]"
  by (simp add: get_json_def http_call_def log_event_def split: sum.splits)

lemma get_members_raw_trace:
  "\<exists>evs. trace (snd (get_members_raw ev w)) = trace w @ evs \<and> list_all quiet evs"
proof (cases "cache_hit ''members_raw'' w")
  case None
  obtain r w1 where j: "get_json ev MEMBERS_URL w = (r, w1)"
    by (cases "get_json ev MEMBERS_URL w") auto
  have t: "trace w1 = trace w @ [Remote (GET MEMBERS_URL)]"
    using get_json_trace [of ev MEMBERS_URL w] j by simp
  show ?thesis
    using None j t
    by (cases r) (simp_all add: get_members_raw_def set_in_cache_def log_event_def quiet_def)
next
  case (Some c)
  then show ?thesis by (simp add: get_members_raw_def)
qed

lemma get_members_trace:
  "\<exists>evs. trace (snd (get_members ev w)) = trace w @ evs \<and> list_all quiet evs"
proof (cases "cache_hit ''members'' w")
  case None
  obtain r w1 where m: "get_members_raw ev w = (r, w1)"
    by (cases "get_members_raw ev w") auto
  from get_members_raw_trace [of ev w] m obtain evs where
    t: "trace w1 = trace w @ evs" and q: "list_all quiet evs"
    by auto
  show ?thesis
    using None m t q
    by (auto simp add: get_members_def set_in_cache_def log_event_def quiet_def
        split: sum.splits)
next
  case (Some c)
  then show ?thesis by (simp add: get_members_def)
qed

lemma get_fronters_miss_trace:
  assumes "cache_hit ''fronters'' w = None"
  shows "\<exists>evs. trace (snd (get_fronters ev w)) = trace w @ Remote (GET FRONTERS_URL) # evs
               \<and> list_all quiet evs"
proof -
  obtain r w1 where j: "get_json ev FRONTERS_URL w = (r, w1)"
    by (cases "get_json ev FRONTERS_URL w") auto
  have t1: "trace w1 = trace w @ [Remote (GET FRONTERS_URL)]"
    using get_json_trace [of ev FRONTERS_URL w] j by simp
  obtain rm w2 where m: "get_members ev w1 = (rm, w2)"
    by (cases "get_members ev w1") auto
  from get_members_trace [of ev w1] m obtain evs where
    t2: "trace w2 = trace w1 @ evs" and q: "list_all quiet evs"
    by auto
  show ?thesis
    using assms j m t1 t2 q
    by (auto simp add: get_fronters_def set_in_cache_def log_event_def quiet_def
        split: sum.splits bool.splits)
qed

lemma invalidated_miss:
  "cache_hit ''fronters'' ((set_front_invalidate w)\<lparr>clock := t\<rparr>) = None"
  by (simp add: set_front_invalidate_def set_in_cache_def log_event_def cache_hit_def
      get_from_cache_def)

lemmas eval_defs =
  get_fronters_def cache_hit_def get_from_cache_def set_front_invalidate_def set_in_cache_def
  log_event_def initial_world_def get_json_def http_call_def reply_def raise_for_status_def
  resp_json_def py_contains_def get_members_def get_members_raw_def MEMBERS_URL_def
  FRONTERS_URL_def py_iter_def process_member_def special_display_name_def
  SPECIAL_DISPLAY_NAMES_def jinx_member_def vi_member_def system_member_def py_getitem_def
  py_get_def py_setitem_def is_mutation_def Let_def

lemma reader_interleaved_value:
  "fst (get_fronters env_switching (set_front_invalidate (initial_world 10))) = Inr old_front"
  "cache reader_interleaved ''fronters'' = Some (old_front, 40)"
  "clock reader_interleaved = 10"
  by (simp_all add: reader_interleaved_def env_switching_def old_front_def eval_defs)

lemma write_completed_value:
  "fst (set_front_request env_switching [JStr ''fghij''] reader_interleaved) = Inr (JObj [])"
  "cache write_completed = cache reader_interleaved"
  "clock write_completed = clock reader_interleaved"
  "trace write_completed = trace reader_interleaved @ [Remote (switch_request [JStr ''fghij''])]"
  by (simp_all add: write_completed_def set_front_request_def http_call_def log_event_def
      env_switching_def reply_def resp_json_def switch_request_def)

lemma remote_after_write:
  "fst (get_json env_switching FRONTERS_URL write_completed) = Inr new_front"
  by (simp add: get_json_def http_call_def write_completed_value(4) env_switching_def
      switch_request_def is_mutation_def reply_def raise_for_status_def resp_json_def
      MEMBERS_URL_def FRONTERS_URL_def split: sum.splits)

lemma stale_hit:
  "cache_hit ''fronters'' reader_interleaved = Some old_front"
  "fst (get_fronters env_switching write_completed) = Inr old_front"
  by (simp_all add: get_fronters_def cache_hit_def get_from_cache_def write_completed_value
      reader_interleaved_value old_front_def)

text \<open>
  C3, as the claim states it, fails: a reader can run while the write is in flight.
  \<open>get_fronters\<close>, started between the invalidation and the request of
  \<open>set_front\<close>, misses, fetches the front, which is still the old one, and caches
  it for \<open>CACHE_TTL\<close> seconds. From then on a read of \<open>fronters\<close> is a hit on
  the old front: for a second reader during the request, and still for
  \<open>get_fronters\<close> after the request has succeeded and the remote API answers with
  the new front.
\<close>

theorem interleaved_reader_counterexample:
  "fst (get_fronters env_switching (set_front_invalidate (initial_world 10))) = Inr old_front
   \<and> cache_hit ''fronters'' reader_interleaved = Some old_front
   \<and> fst (set_front_request env_switching [JStr ''fghij''] reader_interleaved) = Inr (JObj [])
   \<and> fst (get_json env_switching FRONTERS_URL write_completed) = Inr new_front
   \<and> fst (get_fronters env_switching write_completed) = Inr old_front
   \<and> old_front \<noteq> new_front"
  using reader_interleaved_value(1) write_completed_value(1) remote_after_write stale_hit
  by (simp add: old_front_def new_front_def)

text \<open>
  C3, amended: every call of \<open>set_front\<close> invalidates the cache entry
  \<open>fronters\<close> before it issues the remote switch write: the two events it adds to
  the trace are the invalidation and then the request. In the state in which the request
  is issued, a read of \<open>fronters\<close> reports absent at every time, and the first
  \<open>get_fronters\<close> started there asks the remote API instead of answering from the
  cache. When no reader has run in between, a read still reports absent in the state in
  which \<open>set_front\<close> returns.
\<close>

theorem set_front_invalidates_first:
  "trace (snd (set_front ev ids w)) =
     trace w @ [CacheSet ''fronters'' JNull 0, Remote (switch_request ids)]
   \<and> (\<forall>t. get_from_cache ''fronters'' ((set_front_invalidate w)\<lparr>clock := t\<rparr>) = None)
   \<and> (\<forall>t. \<exists>evs. trace (snd (get_fronters ev ((set_front_invalidate w)\<lparr>clock := t\<rparr>))) =
                trace (set_front_invalidate w) @ Remote (GET FRONTERS_URL) # evs)
   \<and> (\<forall>t. get_from_cache ''fronters'' ((snd (set_front ev ids w))\<lparr>clock := t\<rparr>) = None)"
proof -
  have a: "\<exists>evs. trace (snd (get_fronters ev ((set_front_invalidate w)\<lparr>clock := t\<rparr>))) =
                trace (set_front_invalidate w) @ Remote (GET FRONTERS_URL) # evs" for t
    using get_fronters_miss_trace [OF invalidated_miss [where w = w and t = t], of ev]
    by (auto simp add: set_front_invalidate_def set_in_cache_def log_event_def)
  have b: "get_from_cache ''fronters'' ((snd (set_front ev ids w))\<lparr>clock := t\<rparr>) = None" for t
    using set_front_cache [of ev ids w]
    by (simp add: get_from_cache_def set_front_invalidate_def set_in_cache_def log_event_def)
  show ?thesis
    using a b set_front_trace invalidated_absent by blast
qed

text \<open>
  C6, as the claim states it, fails: a response with status 201 is a 2xx response, and
  \<open>set_front\<close> raises on it.
\<close>

theorem set_front_created_counterexample:
  "remote env_created (trace (set_front_invalidate (initial_world 10))) (switch_request []) =
     Inr (reply 201 ''{}'' (Some (JObj [])))
   \<and> 200 \<le> status_code (reply 201 ''{}'' (Some (JObj [])))
   \<and> status_code (reply 201 ''{}'' (Some (JObj []))) \<le> 299
   \<and> fst (set_front env_created [] (initial_world 10)) = Inl (SetFrontFailed 201 ''{}'')"
  by (simp add: env_created_def reply_def set_front_def set_front_request_def http_call_def)

text \<open>
  C6, amended: when the remote answers the switch request, \<open>set_front\<close> fails with the
  remote status and body for every status other than 200 and 204; for status 200 or 204
  it returns what \<open>resp.json()\<close> gives for a body that is not empty (the parsed body,
  or the decoding error of a body that is not JSON), and \<open>None\<close> for an empty body.
\<close>

theorem set_front_result:
  assumes "remote ev (trace (set_front_invalidate w)) (switch_request ids) = Inr resp"
  shows "(status_code resp \<noteq> 200 \<and> status_code resp \<noteq> 204 \<longrightarrow>
            fst (set_front ev ids w) = Inl (SetFrontFailed (status_code resp) (content resp)))
       \<and> ((status_code resp = 200 \<or> status_code resp = 204) \<and> content resp \<noteq> [] \<longrightarrow>
            fst (set_front ev ids w) = resp_json resp)
       \<and> ((status_code resp = 200 \<or> status_code resp = 204) \<and> content resp = [] \<longrightarrow>
            fst (set_front ev ids w) = Inr JNull)"
  using assms
  by (auto simp add: set_front_def set_front_request_def http_call_def)

theorem set_front_result_witness:
  "fst (set_front env_ok [JStr ''abcde''] (initial_world 10)) = Inr (JObj [])"
  using set_front_result [of env_ok "initial_world 10" "[JStr ''abcde'']"
      "reply 200 ''{}'' (Some (JObj []))"]
  by (simp add: env_ok_def reply_def resp_json_def)

section \<open>The limit on fronters\<close>

lemma switch_front_over_limit_general:
  "length ids > MAX_FRONTERS ev \<Longrightarrow>
   switch_front ev (JObj [(''members'', JList ids)]) w =
     (Inl (HTTPException 500
             (DetailStr (HTTPException 400 (DetailTooManyFronters (MAX_FRONTERS ev))))), w)"
  by (simp add: switch_front_def switch_front_try_def handled_def catch_all_def py_get_def)

text \<open>
  C5: with \<open>MAX_FRONTERS = 5\<close> and six member ids, \<open>switch_front\<close> answers before any
  remote call (the state, and so the trace, is unchanged), but its answer is the
  status 500 of the catch-all handler, which wraps the status 400 raised by the check.
\<close>

theorem switch_front_over_limit:
  "switch_front env_ok (JObj [(''members'', JList six_ids)]) (initial_world 10) =
     (Inl (HTTPException 500 (DetailStr (HTTPException 400 (DetailTooManyFronters 5)))),
      initial_world 10)"
  by (simp add: switch_front_def switch_front_try_def handled_def catch_all_def py_get_def
      six_ids_def env_ok_def)

section \<open>Tag lookup\<close>

text \<open>
  C7, as the claim states it, fails: with the identifier and the name both keys of the
  tag map, the lookup returns the list of the name, not the list of the identifier.
\<close>

theorem tags_by_id_counterexample:
  "fst (fst (get_member_tags tagged_world)) ''abcde'' = Some [''Valorant'']
   \<and> fst (fst (get_member_tags tagged_world)) ''Jinx'' = Some [''Arcane'']
   \<and> fst (get_member_tags_by_id ''abcde'' ''Jinx'' tagged_world) = [''Arcane'']
   \<and> fst (get_member_tags_by_id ''abcde'' ''Jinx'' tagged_world) \<noteq> [''Valorant'']"
  by (simp add: tagged_world_def initial_world_def get_member_tags_def get_member_tags_by_id_def)

text \<open>
  C7, amended: for every member and every tag map in which both the member's identifier
  and the member's name are keys, the lookup resolves the member's tags by name: the
  name's tag list takes precedence over the identifier's.
\<close>

theorem tags_name_before_id:
  assumes "fst (fst (get_member_tags w)) member_id = Some by_id"
    and "fst (fst (get_member_tags w)) member_name = Some by_name"
  shows "fst (get_member_tags_by_id member_id member_name w) = by_name"
  using assms
  by (auto simp add: get_member_tags_by_id_def split: prod.splits option.splits)

theorem tags_name_before_id_witness:
  "fst (get_member_tags_by_id ''abcde'' ''Jinx'' tagged_world) = [''Arcane'']"
  using tags_name_before_id [of tagged_world "''abcde''" "[''Valorant'']" "''Jinx''"
      "[''Arcane'']"]
  by (simp add: tagged_world_def initial_world_def get_member_tags_def)

section \<open>Connection registry\<close>

lemma disconnect_registered:
  assumes "active_connections w grp = Some s"
  shows "fst (disconnect c grp w) = Inr ()"
    and "active_connections (snd (disconnect c grp w)) g =
           map_option (removeAll c) (active_connections w g)"
    and "trace (snd (disconnect c grp w)) = trace w"
  using assms by (simp_all add: disconnect_def Let_def)






lemma send_all_connections:
  "active_connections (snd (send_all ev m cs d w)) = active_connections w"
  by (induction cs arbitrary: d w) (auto simp add: log_event_def split: send_result.splits)

lemma send_all_delivers:
  "\<exists>evs. trace (snd (send_all ev m cs d w)) = trace w @ evs
         \<and> (\<forall>c \<in> set cs. (\<forall>tr. send_text ev tr c m = SendOk) \<longrightarrow> Sent c m \<in> set evs)"
proof (induction cs arbitrary: d w)
  case Nil
  then show ?case by simp
next
  case (Cons c cs)
  show ?case
  proof (cases "send_text ev (trace w) c m = SendOk")
    case True
    from Cons.IH [of d "log_event (Sent c m) w"] obtain evs where
      e: "trace (snd (send_all ev m cs d (log_event (Sent c m) w))) =
            trace (log_event (Sent c m) w) @ evs"
      and h: "\<forall>x \<in> set cs. (\<forall>tr. send_text ev tr x m = SendOk) \<longrightarrow> Sent x m \<in> set evs"
      by blast
    have "trace (snd (send_all ev m (c # cs) d w)) = trace w @ (Sent c m # evs)"
      using True e by (simp add: log_event_def)
    moreover have "\<forall>x \<in> set (c # cs).
        (\<forall>tr. send_text ev tr x m = SendOk) \<longrightarrow> Sent x m \<in> set (Sent c m # evs)"
      using h by auto
    ultimately show ?thesis by blast
  next
    case False
    from Cons.IH [of "set_add c d" "log_event (SendFailed c m) w"] obtain evs where
      e: "trace (snd (send_all ev m cs (set_add c d) (log_event (SendFailed c m) w))) =
            trace (log_event (SendFailed c m) w) @ evs"
      and h: "\<forall>x \<in> set cs. (\<forall>tr. send_text ev tr x m = SendOk) \<longrightarrow> Sent x m \<in> set evs"
      by blast
    have "trace (snd (send_all ev m (c # cs) d w)) = trace w @ (SendFailed c m # evs)"
      using False e by (cases "send_text ev (trace w) c m") (simp_all add: log_event_def)
    moreover have "\<forall>x \<in> set (c # cs).
        (\<forall>tr. send_text ev tr x m = SendOk) \<longrightarrow> Sent x m \<in> set (SendFailed c m # evs)"
      using h False by auto
    ultimately show ?thesis by blast
  qed
qed

lemma send_all_keeps_collected:
  "set d \<subseteq> set (fst (send_all ev m cs d w))"
proof (induction cs arbitrary: d w)
  case Nil
  then show ?case by simp
next
  case (Cons x cs)
  have "set d \<subseteq> set (set_add x d)"
    by (auto simp add: set_add_def)
  then have failed: "set d \<subseteq> set (fst (send_all ev m cs (set_add x d) w2))" for w2
    using Cons.IH [of "set_add x d" w2] by blast
  have sent: "set d \<subseteq> set (fst (send_all ev m cs d w2))" for w2
    using Cons.IH .
  show ?case
    using failed sent by (cases "send_text ev (trace w) x m") simp_all
qed

lemma send_all_collects:
  "c \<in> set cs \<Longrightarrow> (\<forall>tr. send_text ev tr c m \<noteq> SendOk) \<Longrightarrow>
   c \<in> set (fst (send_all ev m cs d w))"
proof (induction cs arbitrary: d w)
  case Nil
  then show ?case by simp
next
  case (Cons x cs)
  show ?case
  proof (cases "c = x")
    case True
    have "x \<in> set (set_add x d)" by (simp add: set_add_def)
    then have "x \<in> set (fst (send_all ev m cs (set_add x d) (log_event (SendFailed x m) w)))"
      using send_all_keeps_collected by blast
    then show ?thesis
      using True Cons.prems(2) by (cases "send_text ev (trace w) x m") auto
  next
    case False
    then have "c \<in> set cs" using Cons.prems(1) by simp
    then show ?thesis
      using Cons.IH Cons.prems(2) by (cases "send_text ev (trace w) x m") auto
  qed
qed

lemma send_all_spares:
  "(\<forall>tr. send_text ev tr c m = SendOk) \<Longrightarrow> c \<notin> set d \<Longrightarrow>
   c \<notin> set (fst (send_all ev m cs d w))"
proof (induction cs arbitrary: d w)
  case Nil
  then show ?case by simp
next
  case (Cons x cs)
  show ?case
  proof (cases "send_text ev (trace w) x m = SendOk")
    case True
    then show ?thesis using Cons by simp
  next
    case False
    then have "x \<noteq> c" using Cons.prems(1) by auto
    then have "c \<notin> set (set_add x d)" using Cons.prems(2) by (simp add: set_add_def)
    then have "c \<notin> set (fst (send_all ev m cs (set_add x d) (log_event (SendFailed x m) w)))"
      using Cons.IH Cons.prems(1) by blast
    then show ?thesis
      using False by (cases "send_text ev (trace w) x m") auto
  qed
qed

lemma disconnect_all_registered:
  "active_connections w grp = Some s \<Longrightarrow>
   fst (disconnect_all ds grp w) = Inr ()
   \<and> (\<forall>g. active_connections (snd (disconnect_all ds grp w)) g =
            map_option (filter (\<lambda>x. x \<notin> set ds)) (active_connections w g))
   \<and> trace (snd (disconnect_all ds grp w)) = trace w"
proof (induction ds arbitrary: w s)
  case Nil
  then show ?case by (simp add: option.map_ident)
next
  case (Cons c ds)
  let ?w = "snd (disconnect c grp w)"
  have one: "disconnect c grp w = (Inr (), ?w)"
    using disconnect_registered(1) [OF Cons.prems, of c] by (metis prod.collapse)
  have ac: "active_connections ?w g = map_option (removeAll c) (active_connections w g)" for g
    using disconnect_registered(2) [OF Cons.prems] .
  have "active_connections ?w grp = Some (removeAll c s)"
    using ac [of grp] Cons.prems by simp
  from Cons.IH [OF this]
  have ih: "fst (disconnect_all ds grp ?w) = Inr ()"
    "\<And>g. active_connections (snd (disconnect_all ds grp ?w)) g =
            map_option (filter (\<lambda>x. x \<notin> set ds)) (active_connections ?w g)"
    "trace (snd (disconnect_all ds grp ?w)) = trace ?w"
    by blast+
  have step: "disconnect_all (c # ds) grp w = disconnect_all ds grp ?w"
    using disconnect_registered(1) [OF Cons.prems, of c]
    by (cases "disconnect c grp w") auto
  have flt: "filter (\<lambda>x. x \<notin> set ds) (removeAll c xs) = filter (\<lambda>x. x \<notin> set (c # ds)) xs"
    for xs :: "ws list"
    by (induction xs) auto
  have "active_connections (snd (disconnect_all (c # ds) grp w)) g =
          map_option (filter (\<lambda>x. x \<notin> set (c # ds))) (active_connections w g)" for g
    unfolding step ih(2) ac
    by (cases "active_connections w g") (simp_all add: flt)
  moreover have "trace (snd (disconnect_all (c # ds) grp w)) = trace w"
    unfolding step ih(3) using disconnect_registered(3) [OF Cons.prems] .
  moreover have "fst (disconnect_all (c # ds) grp w) = Inr ()"
    unfolding step using ih(1) .
  ultimately show ?case by blast
qed

text \<open>
  C4: a broadcast to a registered group raises nothing, whatever the sends do. Every
  connection of the group whose send succeeds receives the message (the event
  \<open>Sent\<close> is among the new events) and stays in every group it was in; every
  connection of the group whose send fails is removed from every group.
\<close>

theorem broadcast_isolates_failures:
  assumes "active_connections w grp = Some conns"
  shows "fst (broadcast ev message grp w) = Inr ()
       \<and> (\<forall>c \<in> set conns. (\<forall>tr. send_text ev tr c message = SendOk) \<longrightarrow>
             Sent c message \<in> set (new_events w (snd (broadcast ev message grp w)))
           \<and> (\<forall>g members. active_connections w g = Some members \<and> c \<in> set members \<longrightarrow>
                 (\<exists>members2. active_connections (snd (broadcast ev message grp w)) g =
                               Some members2 \<and> c \<in> set members2)))
       \<and> (\<forall>c \<in> set conns. (\<forall>tr. send_text ev tr c message \<noteq> SendOk) \<longrightarrow>
             (\<forall>g members. active_connections (snd (broadcast ev message grp w)) g =
                 Some members \<longrightarrow> c \<notin> set members))"
proof -
  let ?w0 = "log_event (Broadcast grp message) w"
  let ?sent = "send_all ev message conns [] ?w0"
  let ?out = "disconnect_all (fst ?sent) grp (snd ?sent)"
  have w0: "active_connections ?w0 = active_connections w" "trace ?w0 = trace w @ [Broadcast grp message]"
    by (simp_all add: log_event_def)
  have b: "broadcast ev message grp w = ?out"
    using assms w0(1) by (simp add: broadcast_def Let_def split: prod.splits)
  have acs: "active_connections (snd ?sent) = active_connections w"
    using send_all_connections w0(1) by simp
  then have reg: "active_connections (snd ?sent) grp = Some conns"
    using assms by simp
  note d = disconnect_all_registered [OF reg, of "fst ?sent"]
  have ok: "fst ?out = Inr ()" using d by blast
  have ac: "active_connections (snd ?out) g =
              map_option (filter (\<lambda>x. x \<notin> set (fst ?sent))) (active_connections w g)" for g
    using d acs by simp
  have tr: "trace (snd ?out) = trace (snd ?sent)" using d by blast
  obtain evs where evs: "trace (snd ?sent) = trace ?w0 @ evs"
    and del: "\<forall>c \<in> set conns. (\<forall>tr. send_text ev tr c message = SendOk) \<longrightarrow>
                Sent c message \<in> set evs"
    using send_all_delivers [of ev message conns "[]" ?w0] by blast
  have ne: "new_events w (snd ?out) = Broadcast grp message # evs"
    using tr evs w0(2) by (simp add: new_events_def)
  have healthy: "Sent c message \<in> set (new_events w (snd ?out))
       \<and> (\<forall>g members. active_connections w g = Some members \<and> c \<in> set members \<longrightarrow>
             (\<exists>members2. active_connections (snd ?out) g = Some members2 \<and> c \<in> set members2))"
    if "c \<in> set conns" "\<forall>tr. send_text ev tr c message = SendOk" for c
  proof -
    have "c \<notin> set (fst ?sent)"
      using send_all_spares [of ev c message "[]"] that(2) by simp
    then show ?thesis
      using that del ne ac by auto
  qed
  have failing: "c \<notin> set members"
    if "c \<in> set conns" "\<forall>tr. send_text ev tr c message \<noteq> SendOk"
      "active_connections (snd ?out) g = Some members" for c g members
  proof -
    have "c \<in> set (fst ?sent)"
      using send_all_collects [of c conns ev message] that(1,2) by blast
    then show ?thesis
      using that(3) ac [of g] by auto
  qed
  show ?thesis
    unfolding b using ok healthy failing by blast
qed

text \<open>Witness of C4: socket 1 fails, socket 2 is healthy.\<close>

lemma broadcast_crowded_value:
  "fst (broadcast env_flaky (JStr ''hello'') ''all'' crowded_world) = Inr ()"
  "new_events crowded_world (snd (broadcast env_flaky (JStr ''hello'') ''all'' crowded_world)) =
     [Broadcast ''all'' (JStr ''hello''), SendFailed 1 (JStr ''hello''), Sent 2 (JStr ''hello'')]"
  "active_connections (snd (broadcast env_flaky (JStr ''hello'') ''all'' crowded_world)) ''all'' =
     Some [2]"
  "active_connections (snd (broadcast env_flaky (JStr ''hello'') ''all'' crowded_world))
     ''authenticated'' = Some []"
  by (simp_all add: crowded_world_def initial_world_def env_flaky_def broadcast_def Let_def
      log_event_def set_add_def disconnect_def new_events_def)

theorem broadcast_isolates_failures_witness:
  "active_connections crowded_world ''all'' = Some [1, 2]
   \<and> send_text env_flaky [] 1 (JStr ''hello'') \<noteq> SendOk
   \<and> send_text env_flaky [] 2 (JStr ''hello'') = SendOk
   \<and> fst (broadcast env_flaky (JStr ''hello'') ''all'' crowded_world) = Inr ()
   \<and> Sent 2 (JStr ''hello'') \<in>
       set (new_events crowded_world (snd (broadcast env_flaky (JStr ''hello'') ''all'' crowded_world)))
   \<and> active_connections (snd (broadcast env_flaky (JStr ''hello'') ''all'' crowded_world)) ''all'' =
       Some [2]
   \<and> active_connections (snd (broadcast env_flaky (JStr ''hello'') ''all'' crowded_world))
       ''authenticated'' = Some []"
proof -
  have h: "active_connections crowded_world ''all'' = Some [1, 2]"
    by (simp add: crowded_world_def initial_world_def)
  have s1: "send_text env_flaky [] 1 (JStr ''hello'') \<noteq> SendOk"
    and s2: "\<forall>tr. send_text env_flaky tr 2 (JStr ''hello'') = SendOk"
    by (simp_all add: env_flaky_def)
  have two: "(2::nat) \<in> set [1, 2]" by simp
  have sent: "Sent 2 (JStr ''hello'') \<in>
       set (new_events crowded_world (snd (broadcast env_flaky (JStr ''hello'') ''all'' crowded_world)))"
    using broadcast_isolates_failures [OF h, of env_flaky "JStr ''hello''"] s2 two by blast
  show ?thesis
    using h s1 s2 sent broadcast_crowded_value(1,3,4) by blast
qed

section \<open>Removing a tag\<close>

lemma nobody_untagged: "map_of DEFAULT_MEMBER_TAGS ''nobody'' = None"
  by (simp add: DEFAULT_MEMBER_TAGS_def)

text \<open>
  C10, as the claim states it, fails: while the tag file does not exist, the read of
  \<open>get_member_tags\<close> writes it with the default tags, also on the path on which
  \<open>remove_member_tag\<close> returns \<open>False\<close>.
\<close>

theorem remove_member_tag_missing_file_counterexample:
  "fst (remove_member_tag ''nobody'' ''Arcane'' (initial_world 10)) = False
   \<and> member_tags_file (initial_world 10) = None
   \<and> member_tags_file (snd (remove_member_tag ''nobody'' ''Arcane'' (initial_world 10))) =
       Some (map_of DEFAULT_MEMBER_TAGS)
   \<and> trace (initial_world 10) = []
   \<and> trace (snd (remove_member_tag ''nobody'' ''Arcane'' (initial_world 10))) =
       [FileWrite MEMBER_TAGS_FILE]"
  using nobody_untagged
  by (simp add: remove_member_tag_def get_member_tags_def save_member_tags_def log_event_def
      initial_world_def)

lemma remove_member_tag_present:
  assumes "fst (get_member_tags w) = (member_tags, shared)"
    and "member_tags ident = Some tags" and "tag \<in> set tags"
  shows "fst (remove_member_tag ident tag w)"
    and "member_tags_file (snd (remove_member_tag ident tag w)) =
           Some (member_tags(ident \<mapsto> remove1 tag tags))"
    and "\<exists>evs. trace (snd (remove_member_tag ident tag w)) =
                 trace w @ evs @ [FileWrite MEMBER_TAGS_FILE]"
proof -
  obtain w1 where g: "get_member_tags w = ((member_tags, shared), w1)"
    using assms(1) by (cases "get_member_tags w") auto
  have t: "\<exists>evs. trace w1 = trace w @ evs"
    using g by (auto simp add: get_member_tags_def save_member_tags_def log_event_def
        split: option.splits)
  show "fst (remove_member_tag ident tag w)"
    using g assms(2,3) by (simp add: remove_member_tag_def Let_def)
  show "member_tags_file (snd (remove_member_tag ident tag w)) =
           Some (member_tags(ident \<mapsto> remove1 tag tags))"
    using g assms(2,3)
    by (simp add: remove_member_tag_def Let_def save_member_tags_def log_event_def)
  from t obtain evs where "trace w1 = trace w @ evs" by blast
  then have "trace (snd (remove_member_tag ident tag w)) =
      trace w @ evs @ [FileWrite MEMBER_TAGS_FILE]"
    using g assms(2,3)
    by (simp add: remove_member_tag_def Let_def save_member_tags_def log_event_def)
  then show "\<exists>evs. trace (snd (remove_member_tag ident tag w)) =
                 trace w @ evs @ [FileWrite MEMBER_TAGS_FILE]"
    by blast
qed

lemma remove_member_tag_absent:
  assumes "fst (get_member_tags w) = (member_tags, shared)"
    and "\<not> (\<exists>tags. member_tags ident = Some tags \<and> tag \<in> set tags)"
  shows "\<not> fst (remove_member_tag ident tag w)"
    and "snd (remove_member_tag ident tag w) = snd (get_member_tags w)"
proof -
  obtain w1 where g: "get_member_tags w = ((member_tags, shared), w1)"
    using assms(1) by (cases "get_member_tags w") auto
  show "\<not> fst (remove_member_tag ident tag w)"
    using g assms(2) by (cases "member_tags ident") (simp_all add: remove_member_tag_def)
  show "snd (remove_member_tag ident tag w) = snd (get_member_tags w)"
    using g assms(2) by (cases "member_tags ident") (simp_all add: remove_member_tag_def)
qed

lemma get_member_tags_again:
  "fst (fst (get_member_tags (snd (get_member_tags w)))) = fst (fst (get_member_tags w))"
  by (cases "member_tags_file w")
    (simp_all add: get_member_tags_def save_member_tags_def log_event_def)

lemma get_member_tags_existing:
  "member_tags_file w = Some m \<Longrightarrow> get_member_tags w = ((m, False), w)"
  by (simp add: get_member_tags_def)

lemma get_member_tags_missing:
  "member_tags_file w = None \<Longrightarrow>
   get_member_tags w =
     ((default_member_tags w, True), save_member_tags (default_member_tags w) w)"
  by (simp add: get_member_tags_def)

text \<open>
  C10, amended: \<open>remove_member_tag\<close> returns \<open>True\<close> exactly when the identifier is
  a key of the tag map as \<open>get_member_tags\<close> reads it and the tag is in its list; then
  it writes the map with the first occurrence of the tag removed. Otherwise it returns
  \<open>False\<close> and does nothing beyond the read: when the tag file exists the state is
  unchanged and nothing is written; when it does not exist yet the read creates it with
  the default tags, and the map as read is the same afterwards.
\<close>

theorem remove_member_tag_effect:
  assumes "fst (get_member_tags w) = (member_tags, shared)"
  shows "(fst (remove_member_tag ident tag w) =
            (\<exists>tags. member_tags ident = Some tags \<and> tag \<in> set tags))
       \<and> (\<forall>tags. member_tags ident = Some tags \<and> tag \<in> set tags \<longrightarrow>
             member_tags_file (snd (remove_member_tag ident tag w)) =
               Some (member_tags(ident \<mapsto> remove1 tag tags))
           \<and> (\<exists>evs. trace (snd (remove_member_tag ident tag w)) =
                      trace w @ evs @ [FileWrite MEMBER_TAGS_FILE]))
       \<and> (\<not> (\<exists>tags. member_tags ident = Some tags \<and> tag \<in> set tags) \<longrightarrow>
             snd (remove_member_tag ident tag w) = snd (get_member_tags w)
           \<and> fst (fst (get_member_tags (snd (remove_member_tag ident tag w)))) = member_tags)
       \<and> (\<forall>m. member_tags_file w = Some m \<longrightarrow> snd (get_member_tags w) = w \<and> member_tags = m)
       \<and> (member_tags_file w = None \<longrightarrow>
             snd (get_member_tags w) = save_member_tags (default_member_tags w) w
           \<and> member_tags = default_member_tags w)"
proof -
  have iff: "fst (remove_member_tag ident tag w) =
            (\<exists>tags. member_tags ident = Some tags \<and> tag \<in> set tags)"
    using remove_member_tag_present(1) [OF assms] remove_member_tag_absent(1) [OF assms]
    by blast
  have present: "member_tags_file (snd (remove_member_tag ident tag w)) =
               Some (member_tags(ident \<mapsto> remove1 tag tags))
           \<and> (\<exists>evs. trace (snd (remove_member_tag ident tag w)) =
                      trace w @ evs @ [FileWrite MEMBER_TAGS_FILE])"
    if "member_tags ident = Some tags \<and> tag \<in> set tags" for tags
    using remove_member_tag_present(2,3) [OF assms] that by blast
  have absent: "snd (remove_member_tag ident tag w) = snd (get_member_tags w)
           \<and> fst (fst (get_member_tags (snd (remove_member_tag ident tag w)))) = member_tags"
    if "\<not> (\<exists>tags. member_tags ident = Some tags \<and> tag \<in> set tags)"
    using remove_member_tag_absent(2) [OF assms that] get_member_tags_again [of w] assms
    by simp
  have existing: "snd (get_member_tags w) = w \<and> member_tags = m"
    if "member_tags_file w = Some m" for m
    using get_member_tags_existing [OF that] assms by simp
  have missing: "snd (get_member_tags w) = save_member_tags (default_member_tags w) w
           \<and> member_tags = default_member_tags w"
    if "member_tags_file w = None"
    using get_member_tags_missing [OF that] assms by simp
  show ?thesis
    using iff present absent existing missing by blast
qed

lemma remove_member_tag_tagged_value:
  "fst (get_member_tags tagged_world) =
     ([''abcde'' \<mapsto> [''Valorant''], ''Jinx'' \<mapsto> [''Arcane'']], False)"
  "member_tags_file (snd (remove_member_tag ''Jinx'' ''Arcane'' tagged_world)) =
       Some [''abcde'' \<mapsto> [''Valorant''], ''Jinx'' \<mapsto> []]"
  "snd (remove_member_tag ''Jinx'' ''Cat'' tagged_world) = tagged_world"
  by (simp_all add: tagged_world_def initial_world_def get_member_tags_def
      remove_member_tag_def save_member_tags_def log_event_def Let_def)

theorem remove_member_tag_effect_witness:
  "fst (get_member_tags tagged_world) =
     ([''abcde'' \<mapsto> [''Valorant''], ''Jinx'' \<mapsto> [''Arcane'']], False)
   \<and> fst (remove_member_tag ''Jinx'' ''Arcane'' tagged_world)
   \<and> member_tags_file (snd (remove_member_tag ''Jinx'' ''Arcane'' tagged_world)) =
       Some [''abcde'' \<mapsto> [''Valorant''], ''Jinx'' \<mapsto> []]
   \<and> \<not> fst (remove_member_tag ''Jinx'' ''Cat'' tagged_world)
   \<and> snd (remove_member_tag ''Jinx'' ''Cat'' tagged_world) = tagged_world"
proof -
  note h = remove_member_tag_tagged_value(1)
  have yes: "fst (remove_member_tag ''Jinx'' ''Arcane'' tagged_world)"
    using remove_member_tag_effect [OF h, of "''Jinx''" "''Arcane''"] by simp
  have no: "\<not> fst (remove_member_tag ''Jinx'' ''Cat'' tagged_world)"
    using remove_member_tag_effect [OF h, of "''Jinx''" "''Cat''"] by simp
  show ?thesis
    using h yes no remove_member_tag_tagged_value(2,3) by blast
qed

section \<open>The member list\<close>

lemma process_member_system:
  assumes "map_of kv ''name'' = Some (JStr ''system'')"
  shows "process_member (JObj kv) =
           Inr (JObj (AList.update ''original_name'' (JStr ''system'')
                  (AList.update ''is_special'' (JBool True)
                    (AList.update ''display_name'' (JStr ''Unsure'') kv))))"
  using assms
  by (simp add: process_member_def special_display_name_def SPECIAL_DISPLAY_NAMES_def)

lemma process_members_member:
  "process_members ms = Inr pm \<Longrightarrow> m \<in> set ms \<Longrightarrow>
   \<exists>m2. process_member m = Inr m2 \<and> m2 \<in> set pm"
proof (induction ms arbitrary: pm)
  case Nil
  then show ?case by simp
next
  case (Cons a ms)
  from Cons.prems(1) obtain a2 rest where
    a: "process_member a = Inr a2" and r: "process_members ms = Inr rest" and pm: "pm = a2 # rest"
    by (auto split: sum.splits)
  show ?case
  proof (cases "m = a")
    case True
    then show ?thesis using a pm by auto
  next
    case False
    then have "m \<in> set ms" using Cons.prems(2) by simp
    from Cons.IH [OF r this] show ?thesis using pm by auto
  qed
qed

lemma get_members_processed:
  assumes "cache_hit ''members'' w = None"
    and "get_members ev w = (Inr result, w2)"
  shows "\<exists>raw members processed.
           fst (get_members_raw ev w) = Inr raw \<and> py_iter raw = Inr members
         \<and> process_members members = Inr processed \<and> result = JList processed"
  using assms
  by (auto simp add: get_members_def split: prod.splits sum.splits)

lemma get_members_upstream_value:
  "fst (get_members env_upstream (initial_world 10)) =
     Inr (JList [JObj [(''id'', JStr ''sysid''), (''name'', JStr ''system''),
                       (''original_name'', JStr ''system''),
                       (''display_name'', JStr ''Unsure''), (''is_special'', JBool True)],
                 JObj jinx_member])"
  by (simp add: get_members_def get_members_raw_def cache_hit_def get_from_cache_def
      initial_world_def get_json_def http_call_def env_upstream_def reply_def MEMBERS_URL_def
      raise_for_status_def resp_json_def set_in_cache_def log_event_def py_iter_def
      process_member_def special_display_name_def SPECIAL_DISPLAY_NAMES_def
      system_member_def jinx_member_def Let_def)

text \<open>
  C9, as the claim states it, fails: the processed record also carries the key
  \<open>original_name\<close>, set to the name; an upstream record that has this field loses
  its value.
\<close>

theorem system_member_original_name_counterexample:
  "fst (get_members env_upstream (initial_world 10)) =
     Inr (JList [JObj [(''id'', JStr ''sysid''), (''name'', JStr ''system''),
                       (''original_name'', JStr ''system''),
                       (''display_name'', JStr ''Unsure''), (''is_special'', JBool True)],
                 JObj jinx_member])
   \<and> map_of system_member ''name'' = Some (JStr ''system'')
   \<and> map_of system_member ''original_name'' = Some (JStr ''legacy'')"
  using get_members_upstream_value by (simp add: system_member_def)

text \<open>
  C9, amended: when the member list is produced by the fetch (no hit on the processed
  tier), every upstream record whose name is \<open>system\<close> is in the result with display
  name \<open>Unsure\<close>, \<open>is_special\<close> true and \<open>original_name\<close> set to
  \<open>system\<close>, and every other field unchanged.
\<close>

theorem system_member_shown_as_unsure:
  assumes "cache_hit ''members'' w = None"
    and "get_members ev w = (Inr result, w2)"
  shows "\<exists>raw members processed.
           fst (get_members_raw ev w) = Inr raw \<and> py_iter raw = Inr members
         \<and> result = JList processed
         \<and> (\<forall>kv. JObj kv \<in> set members \<and> map_of kv ''name'' = Some (JStr ''system'') \<longrightarrow>
               (\<exists>kv2. JObj kv2 \<in> set processed
                     \<and> map_of kv2 ''display_name'' = Some (JStr ''Unsure'')
                     \<and> map_of kv2 ''is_special'' = Some (JBool True)
                     \<and> map_of kv2 ''original_name'' = Some (JStr ''system'')
                     \<and> (\<forall>k. k \<noteq> ''display_name'' \<and> k \<noteq> ''is_special''
                             \<and> k \<noteq> ''original_name'' \<longrightarrow> map_of kv2 k = map_of kv k)))"
proof -
  from get_members_processed [OF assms] obtain raw members processed where
    raw: "fst (get_members_raw ev w) = Inr raw" and it: "py_iter raw = Inr members"
    and pm: "process_members members = Inr processed" and res: "result = JList processed"
    by blast
  have "\<exists>kv2. JObj kv2 \<in> set processed
             \<and> map_of kv2 ''display_name'' = Some (JStr ''Unsure'')
             \<and> map_of kv2 ''is_special'' = Some (JBool True)
             \<and> map_of kv2 ''original_name'' = Some (JStr ''system'')
             \<and> (\<forall>k. k \<noteq> ''display_name'' \<and> k \<noteq> ''is_special''
                     \<and> k \<noteq> ''original_name'' \<longrightarrow> map_of kv2 k = map_of kv k)"
    if mem: "JObj kv \<in> set members" and name: "map_of kv ''name'' = Some (JStr ''system'')" for kv
  proof -
    let ?kv2 = "AList.update ''original_name'' (JStr ''system'')
                  (AList.update ''is_special'' (JBool True)
                    (AList.update ''display_name'' (JStr ''Unsure'') kv))"
    from process_members_member [OF pm mem] process_member_system [OF name]
    have "JObj ?kv2 \<in> set processed" by auto
    moreover have "map_of ?kv2 = (map_of kv)(''display_name'' \<mapsto> JStr ''Unsure'',
        ''is_special'' \<mapsto> JBool True, ''original_name'' \<mapsto> JStr ''system'')"
      by (simp add: update_conv')
    ultimately show ?thesis by (intro exI [of _ ?kv2]) simp
  qed
  then show ?thesis using raw it res by blast
qed

theorem system_member_shown_as_unsure_witness:
  "cache_hit ''members'' (initial_world 10) = None
   \<and> fst (get_members env_upstream (initial_world 10)) =
       Inr (JList [JObj [(''id'', JStr ''sysid''), (''name'', JStr ''system''),
                         (''original_name'', JStr ''system''),
                         (''display_name'', JStr ''Unsure''), (''is_special'', JBool True)],
                   JObj jinx_member])"
proof -
  have h: "cache_hit ''members'' (initial_world 10) = None"
    by (simp add: cache_hit_def get_from_cache_def initial_world_def)
  obtain r w2 where g: "get_members env_upstream (initial_world 10) = (r, w2)"
    by (cases "get_members env_upstream (initial_world 10)") auto
  have r: "r = Inr (JList [JObj [(''id'', JStr ''sysid''), (''name'', JStr ''system''),
                         (''original_name'', JStr ''system''),
                         (''display_name'', JStr ''Unsure''), (''is_special'', JBool True)],
                   JObj jinx_member])"
    using g get_members_upstream_value by simp
  have g2: "get_members env_upstream (initial_world 10) =
      (Inr (JList [JObj [(''id'', JStr ''sysid''), (''name'', JStr ''system''),
                         (''original_name'', JStr ''system''),
                         (''display_name'', JStr ''Unsure''), (''is_special'', JBool True)],
                   JObj jinx_member]), w2)"
    using g r by simp
  show ?thesis
    using h get_members_upstream_value system_member_shown_as_unsure [OF h g2] by simp
qed

text \<open>
  C1: with both tiers cached, \<open>update_member_tag_list\<close> invalidates the raw tier
  only; the processed tier is still a hit, and the next \<open>get_members\<close> returns it
  without any request.
\<close>

theorem tag_update_keeps_processed_members:
  "fst (update_member_tag_list admin ''Jinx'' [''Valorant''] cached_world) =
     Inr (JObj [(''status'', JStr ''success''),
                (''message'', JStr ''Updated tags for Jinx''),
                (''tags'', JList [JStr ''Valorant''])])
   \<and> cache_hit ''members_raw'' cached_world = Some (JList [JObj jinx_member])
   \<and> cache_hit ''members_raw''
       (snd (update_member_tag_list admin ''Jinx'' [''Valorant''] cached_world)) = None
   \<and> cache_hit ''members''
       (snd (update_member_tag_list admin ''Jinx'' [''Valorant''] cached_world)) =
       Some (JList [JObj jinx_member])
   \<and> get_members env_upstream
       (snd (update_member_tag_list admin ''Jinx'' [''Valorant''] cached_world)) =
       (Inr (JList [JObj jinx_member]),
        snd (update_member_tag_list admin ''Jinx'' [''Valorant''] cached_world))"
  by (simp add: update_member_tag_list_def admin_def cached_world_def tagged_world_def
      initial_world_def handled_def reraise_http_def validate_subsystem_tag_def get_subsystems_def
      update_member_tags_def get_member_tags_def save_member_tags_def set_in_cache_def
      log_event_def cache_hit_def get_from_cache_def get_members_def jinx_member_def)

section \<open>The order of the steps of a mutating operation\<close>




























end
